theory Spec2Isabelle
  imports Main
begin

section \<open>The chat thread component\<close>

text \<open>
  A shallow embedding of \<^verbatim>\<open>ChatThreadComponent\<close>
  (\<^verbatim>\<open>packages/chat-component/src/components/chat-thread-component.ts\<close>).
  Every method of the class is a function on an explicit component state; the
  templates built with \<^verbatim>\<open>html\<close> are values of a tree datatype.
\<close>

subsection \<open>Entry model\<close>

text \<open>
  Modelled from the spec: the types \<^verbatim>\<open>Citation\<close>, \<^verbatim>\<open>ChatMessageText\<close> and
  \<^verbatim>\<open>ChatThreadEntry\<close> are ambient declarations that the component file uses but does
  not contain. Their fields are the ones the component reads; an optional field is an
  \<open>option\<close> (\<open>None\<close> is \<^verbatim>\<open>undefined\<close>). A citation is opaque to the component.
\<close>

datatype citation = Citation string

record chat_message_text =
  value_text :: string
  followingSteps :: "string list option"

record chat_error =
  message :: string

record chat_thread_entry =
  isUserMessage :: bool
  text_entry :: "chat_message_text list"
  citations :: "citation list option"
  followupQuestions :: "string list option"
  error_entry :: "chat_error option"
  timestamp :: string

text \<open>\<^verbatim>\<open>interface ChatActionButton\<close>, as the component file declares it.\<close>

record chat_action_button =
  label :: string
  svgIcon :: string
  isDisabled_button :: bool
  id_button :: string

text \<open>
  Modelled from the spec: the labels of \<^verbatim>\<open>globalConfig\<close> and the three raw SVG
  imports live in files outside the component; the functions below take them as a
  parameter.
\<close>

record global_config =
  COPY_RESPONSE_BUTTON_LABEL_TEXT :: string
  COPIED_SUCCESSFULLY_MESSAGE :: string
  CITATIONS_LABEL :: string
  USER_IS_BOT :: string
  iconSuccess :: string
  iconCopyToClipboard :: string
  iconQuestion :: string

subsection \<open>Events, timers and the component state\<close>

text \<open>
  An event carries its type, its \<^verbatim>\<open>detail\<close> payload, the two propagation flags and
  the cancelled flag that \<^verbatim>\<open>preventDefault\<close> sets.
\<close>

datatype detail =
    NoDetail
  | ActionButtonDetail string chat_thread_entry
  | FollowupDetail string
  | CitationDetail citation

record event =
  type_event :: string
  detail_event :: detail
  bubbles :: bool
  composed :: bool
  defaultPrevented :: bool

datatype html_element = HTMLElement string

record scroll_options =
  behavior :: string
  block :: string

text \<open>The only closure handed to \<^verbatim>\<open>setTimeout\<close> is the one that scrolls to the footer.\<close>

datatype callback = ScrollFooterIntoView

record timer =
  handle :: nat
  due :: nat
  callback_timer :: callback

text \<open>
  The state holds the five reactive fields of the class and the result of the
  \<^verbatim>\<open>@query('#chat-list-footer')\<close> getter (\<open>None\<close> when the element does not exist).
  What the methods do to the platform is recorded beside them: the texts passed to
  \<^verbatim>\<open>navigator.clipboard.writeText\<close> (\<open>None\<close> for \<^verbatim>\<open>undefined\<close>), the events given
  to \<^verbatim>\<open>dispatchEvent\<close>, the calls of \<^verbatim>\<open>scrollIntoView\<close>, and the timer table of the
  event loop with its clock and the next free handle.
\<close>

record component =
  chatThread :: "chat_thread_entry list"
  actionButtons :: "chat_action_button list"
  isDisabled :: bool
  isProcessingResponse :: bool
  isResponseCopied :: bool
  chatFooter :: "html_element option"
  clipboardWrites :: "string option list"
  dispatched :: "event list"
  scrolled :: "(html_element \<times> scroll_options) list"
  timers :: "timer list"
  nextHandle :: nat
  now :: nat

subsection \<open>Copying the last response\<close>

text \<open>
  \<^verbatim>\<open>Array.prototype.at\<close>: a negative index counts from the end, and an index out of
  range yields \<^verbatim>\<open>undefined\<close>.
\<close>

definition at_js :: "'a list \<Rightarrow> int \<Rightarrow> 'a option" where
  "at_js xs i =
     (let n = int (length xs); k = (if i < 0 then n + i else i)
      in if k < 0 \<or> n \<le> k then None else Some (xs ! nat k))"

text \<open>
  \<^verbatim>\<open>this.chatThread.at(-1)?.text.at(-1)?.value\<close>: each \<^verbatim>\<open>?.\<close> ends the chain with
  \<^verbatim>\<open>undefined\<close> when what stands before it is \<^verbatim>\<open>undefined\<close>.
\<close>

definition lastResponse :: "component \<Rightarrow> string option" where
  "lastResponse c =
     (case at_js (chatThread c) (- 1) of
        None \<Rightarrow> None
      | Some entry \<Rightarrow>
          (case at_js (text_entry entry) (- 1) of
             None \<Rightarrow> None
           | Some textEntry \<Rightarrow> Some (value_text textEntry)))"

definition writeText :: "string option \<Rightarrow> component \<Rightarrow> component" where
  "writeText data c = c\<lparr>clipboardWrites := clipboardWrites c @ [data]\<rparr>"

definition copyResponseToClipboard :: "component \<Rightarrow> component" where
  "copyResponseToClipboard c =
     (let response = lastResponse c;
          c1 = writeText response c
      in c1\<lparr>isResponseCopied := True\<rparr>)"

text \<open>
  The same method with the exceptions it can end in. Reading a property of
  \<^verbatim>\<open>undefined\<close> throws a \<^verbatim>\<open>TypeError\<close>; \<^verbatim>\<open>?.\<close> yields \<^verbatim>\<open>undefined\<close> there
  instead of throwing. \<^verbatim>\<open>navigator.clipboard\<close> is \<^verbatim>\<open>undefined\<close> where the platform
  does not expose the clipboard (a page outside a secure context), and the method reads
  \<^verbatim>\<open>writeText\<close> from it with a plain \<^verbatim>\<open>.\<close> and without a guard. An exception ends
  the method where it is thrown: the statements after it do not run.
\<close>

datatype js_error = TypeError

datatype clipboard = Clipboard

record navigator =
  clipboard_navigator :: "clipboard option"

definition member :: "'a option \<Rightarrow> ('a \<Rightarrow> 'b) \<Rightarrow> js_error + 'b" where
  "member x f = (case x of None \<Rightarrow> Inl TypeError | Some v \<Rightarrow> Inr (f v))"

definition optionalChain :: "'a option \<Rightarrow> ('a \<Rightarrow> js_error + 'b option) \<Rightarrow> js_error + 'b option" where
  "optionalChain x k = (case x of None \<Rightarrow> Inr None | Some v \<Rightarrow> k v)"

definition readResponse :: "component \<Rightarrow> js_error + string option" where
  "readResponse c =
     optionalChain (at_js (chatThread c) (- 1))
       (\<lambda>entry. optionalChain (at_js (text_entry entry) (- 1))
          (\<lambda>textEntry. Inr (Some (value_text textEntry))))"

definition copyResponseToClipboard_on :: "navigator \<Rightarrow> component \<Rightarrow> js_error + component" where
  "copyResponseToClipboard_on nav c =
     (case readResponse c of
        Inl e \<Rightarrow> Inl e
      | Inr response \<Rightarrow>
          (case member (clipboard_navigator nav) (\<lambda>cb. writeText response c) of
             Inl e \<Rightarrow> Inl e
           | Inr c1 \<Rightarrow> Inr (c1\<lparr>isResponseCopied := True\<rparr>)))"

subsection \<open>Outward notifications\<close>

definition preventDefault :: "event \<Rightarrow> event" where
  "preventDefault ev = ev\<lparr>defaultPrevented := True\<rparr>"

definition dispatchEvent :: "event \<Rightarrow> component \<Rightarrow> component" where
  "dispatchEvent ev c = c\<lparr>dispatched := dispatched c @ [ev]\<rparr>"

text \<open>\<^verbatim>\<open>new CustomEvent(type, {detail, bubbles, composed})\<close>; a new event is not cancelled.\<close>

definition CustomEvent :: "string \<Rightarrow> detail \<Rightarrow> bool \<Rightarrow> bool \<Rightarrow> event" where
  "CustomEvent ty d b co =
     \<lparr>type_event = ty, detail_event = d, bubbles = b, composed = co, defaultPrevented = False\<rparr>"

definition actionButtonClicked ::
  "chat_action_button \<Rightarrow> chat_thread_entry \<Rightarrow> event \<Rightarrow> component \<Rightarrow> event \<times> component" where
  "actionButtonClicked actionButton entry ev c =
     (let ev1 = preventDefault ev;
          actionButtonClickedEvent =
            CustomEvent ''on-action-button-click''
              (ActionButtonDetail (id_button actionButton) entry) True True
      in (ev1, dispatchEvent actionButtonClickedEvent c))"

definition handleCitationClick :: "event \<Rightarrow> component \<Rightarrow> event \<times> component" where
  "handleCitationClick citationClickedEvent c =
     (citationClickedEvent, dispatchEvent citationClickedEvent c)"

definition handleFollowupQuestionClick ::
  "string \<Rightarrow> event \<Rightarrow> component \<Rightarrow> event \<times> component" where
  "handleFollowupQuestionClick question ev c =
     (let ev1 = preventDefault ev;
          citationClickedEvent = CustomEvent ''on-followup-click'' (FollowupDetail question) True True
      in (ev1, dispatchEvent citationClickedEvent c))"

subsection \<open>The scroll scheduler\<close>

text \<open>
  The timers of the event loop. \<^verbatim>\<open>setTimeout\<close> hands out the next free handle and
  files the callback under it, due after the delay; \<^verbatim>\<open>clearTimeout\<close> removes the
  timer filed under the handle it is given, if there is one.
\<close>

definition clearTimeout :: "nat \<Rightarrow> component \<Rightarrow> component" where
  "clearTimeout h c = c\<lparr>timers := filter (\<lambda>t. handle t \<noteq> h) (timers c)\<rparr>"

definition setTimeout :: "callback \<Rightarrow> nat \<Rightarrow> component \<Rightarrow> nat \<times> component" where
  "setTimeout cb delay c =
     (let h = nextHandle c
      in (h, c\<lparr>timers := timers c @ [\<lparr>handle = h, due = now c + delay, callback_timer = cb\<rparr>],
               nextHandle := h + 1\<rparr>))"

text \<open>
  The body of the arrow function in \<^verbatim>\<open>debounceScrollIntoView\<close>: it reads
  \<^verbatim>\<open>this.chatFooter\<close> when it runs.
\<close>

fun runCallback :: "callback \<Rightarrow> component \<Rightarrow> component" where
  "runCallback ScrollFooterIntoView c =
     (case chatFooter c of
        Some footer \<Rightarrow>
          c\<lparr>scrolled := scrolled c @ [(footer, \<lparr>behavior = ''smooth'', block = ''center''\<rparr>)]\<rparr>
      | None \<Rightarrow> c)"

text \<open>
  \<^verbatim>\<open>let timeout: any = 0; clearTimeout(timeout); timeout = setTimeout(..., 500);\<close>
  The handle is a local of the call: it is 0 when \<^verbatim>\<open>clearTimeout\<close> reads it, and the
  handle that \<^verbatim>\<open>setTimeout\<close> returns is dropped when the call ends.
\<close>

definition debounceScrollIntoView :: "component \<Rightarrow> component" where
  "debounceScrollIntoView c =
     (let timeout = 0;
          c1 = clearTimeout timeout c;
          (timeout1, c2) = setTimeout ScrollFooterIntoView 500 c1
      in c2)"

text \<open>
  The event loop up to the instant \<open>t\<close>: the timers due by then run in the order of
  their due times (timers due together in the order they were set), and the clock
  moves to \<open>t\<close>.
\<close>

definition elapse :: "nat \<Rightarrow> component \<Rightarrow> component" where
  "elapse t c =
     (let ready = sort_key due (filter (\<lambda>tm. due tm \<le> t) (timers c));
          c1 = c\<lparr>timers := filter (\<lambda>tm. \<not> due tm \<le> t) (timers c), now := max (now c) t\<rparr>
      in foldl (\<lambda>s tm. runCallback (callback_timer tm) s) c1 ready)"

subsection \<open>The rendered tree\<close>

text \<open>
  What a listener bound with \<^verbatim>\<open>@click\<close> or \<^verbatim>\<open>@on-citation-click\<close> calls, with the
  values its closure holds.
\<close>

datatype handler =
    OnActionButtonClicked chat_action_button chat_thread_entry
  | OnCopyResponseToClipboard
  | OnHandleCitationClick
  | OnHandleFollowupQuestionClick string

text \<open>
  A binding of a template: a string attribute, a boolean attribute (\<^verbatim>\<open>?disabled\<close>) or
  a property (\<^verbatim>\<open>.citations\<close>, \<^verbatim>\<open>.label\<close>).
\<close>

datatype binding =
    Attr string
  | BoolAttr bool
  | PropCitations "citation list"
  | PropString string

text \<open>
  A template result: an element with its tag, bindings, listeners and children, a text,
  raw markup passed through \<^verbatim>\<open>unsafeHTML\<close> or \<^verbatim>\<open>unsafeSVG\<close> (a leaf: the component
  does not look inside), or a comment. The empty string of a template slot is the empty
  text.
\<close>

datatype node =
    Element string "(string \<times> binding) list" "(string \<times> handler) list" "node list"
  | Text string
  | UnsafeHTML string
  | UnsafeSVG string
  | Comment string

definition renderResponseActions :: "global_config \<Rightarrow> chat_thread_entry \<Rightarrow> component \<Rightarrow> node" where
  "renderResponseActions g entry c =
     Element ''div'' [(''class'', Attr ''chat__header'')] []
       (map (\<lambda>actionButton.
               Element ''button''
                 [(''title'', Attr (label actionButton)),
                  (''class'', Attr ''button chat__header--button''),
                  (''data-testid'', Attr (''chat-action-button-'' @ id_button actionButton)),
                  (''disabled'', BoolAttr (isDisabled_button actionButton))]
                 [(''click'', OnActionButtonClicked actionButton entry)]
                 [Element ''span'' [(''class'', Attr ''chat__header--span'')] []
                    [Text (label actionButton)],
                  UnsafeSVG (svgIcon actionButton)])
            (actionButtons c)
        @ [Element ''button''
             [(''title'', Attr (COPY_RESPONSE_BUTTON_LABEL_TEXT g)),
              (''class'', Attr ''button chat__header--button''),
              (''data-testid'', Attr ''chat-action-button-copy-response''),
              (''disabled'', BoolAttr (isDisabled c))]
             [(''click'', OnCopyResponseToClipboard)]
             [Element ''span'' [(''class'', Attr ''chat__header--span'')] []
                [Text (if isResponseCopied c then COPIED_SUCCESSFULLY_MESSAGE g
                       else COPY_RESPONSE_BUTTON_LABEL_TEXT g)],
              (if isResponseCopied c then UnsafeSVG (iconSuccess g)
               else UnsafeSVG (iconCopyToClipboard g))]])"

text \<open>
  \<^verbatim>\<open>renderTextEntry\<close> builds the block and, while a response is being processed, asks
  for a scroll: it returns the tree and the state after that request.
\<close>

definition renderTextEntry :: "chat_message_text \<Rightarrow> component \<Rightarrow> node \<times> component" where
  "renderTextEntry textEntry c =
     (let entries = [Element ''p'' [(''class'', Attr ''chat__txt--entry'')] []
                       [UnsafeHTML (value_text textEntry)]];
          entries1 =
            (case followingSteps textEntry of
               None \<Rightarrow> entries
             | Some steps \<Rightarrow>
                 if length steps > 0
                 then entries @
                   [Element ''ol'' [(''class'', Attr ''items__list steps'')] []
                      (map (\<lambda>followingStep.
                              Element ''li'' [(''class'', Attr ''items__listItem--step'')] []
                                [UnsafeHTML followingStep])
                           steps)]
                 else entries);
          c1 = (if isProcessingResponse c then debounceScrollIntoView c else c)
      in (Element ''div'' [(''class'', Attr ''chat_txt--entry-container'')] [] entries1, c1))"

definition renderCitation :: "global_config \<Rightarrow> citation list option \<Rightarrow> node" where
  "renderCitation g cits =
     (case cits of
        None \<Rightarrow> Text []
      | Some cs \<Rightarrow>
          if length cs > 0
          then Element ''div'' [(''class'', Attr ''chat__citations'')] []
                 [Element ''citation-list''
                    [(''citations'', PropCitations cs), (''label'', PropString (CITATIONS_LABEL g))]
                    [(''on-citation-click'', OnHandleCitationClick)] []]
          else Text [])"

definition renderFollowupQuestions :: "global_config \<Rightarrow> string list option \<Rightarrow> node" where
  "renderFollowupQuestions g fqs =
     (case fqs of
        None \<Rightarrow> Text []
      | Some qs \<Rightarrow>
          if length qs > 0
          then Element ''div'' [(''class'', Attr ''items__listWrapper'')] []
                 [UnsafeSVG (iconQuestion g),
                  Element ''ul'' [(''class'', Attr ''items__list followup'')] []
                    (map (\<lambda>followupQuestion.
                            Element ''li'' [(''class'', Attr ''items__listItem--followup'')] []
                              [Element ''a''
                                 [(''class'', Attr ''items__link''), (''href'', Attr ''#''),
                                  (''data-testid'', Attr ''followUpQuestion'')]
                                 [(''click'', OnHandleFollowupQuestionClick followupQuestion)]
                                 [Text followupQuestion]])
                         qs)]
          else Text [])"

definition renderError :: "chat_error \<Rightarrow> node" where
  "renderError err = Element ''p'' [(''class'', Attr ''chat__txt error'')] [] [Text (message err)]"

text \<open>
  \<^verbatim>\<open>Array.prototype.map\<close> with a function that also changes the state: the elements
  are visited from the first to the last.
\<close>

fun mapState :: "('a \<Rightarrow> 's \<Rightarrow> 'b \<times> 's) \<Rightarrow> 'a list \<Rightarrow> 's \<Rightarrow> 'b list \<times> 's" where
  "mapState f [] s = ([], s)"
| "mapState f (x # xs) s =
     (let (y, s1) = f x s;
          (ys, s2) = mapState f xs s1
      in (y # ys, s2))"

text \<open>
  The arrow function that \<^verbatim>\<open>render\<close> maps over \<^verbatim>\<open>this.chatThread\<close>: the list item of
  one message.
\<close>

definition renderMessage :: "global_config \<Rightarrow> chat_thread_entry \<Rightarrow> component \<Rightarrow> node \<times> component" where
  "renderMessage g msg c =
     (let userClass = (if isUserMessage msg then ''user-message'' else []);
          actions = (if isUserMessage msg then Text [] else renderResponseActions g msg c);
          (texts, c1) = mapState renderTextEntry (text_entry msg) c;
          cits = renderCitation g (citations msg);
          followups = renderFollowupQuestions g (followupQuestions msg);
          err = (case error_entry msg of Some e \<Rightarrow> renderError e | None \<Rightarrow> Text [])
      in (Element ''li'' [(''class'', Attr (''chat__listItem '' @ userClass))] []
            [Element ''div'' [(''class'', Attr (''chat__txt '' @ userClass))] []
               ([actions] @ texts @ [cits, followups, err]),
             Element ''p'' [(''class'', Attr ''chat__txt--info'')] []
               [Element ''span'' [(''class'', Attr ''timestamp'')] [] [Text (timestamp msg)],
                Text '','',
                Element ''span'' [(''class'', Attr ''user'')] []
                  [Text (if isUserMessage msg then ''You'' else USER_IS_BOT g)]]],
          c1))"

text \<open>\<^verbatim>\<open>render\<close>: the list of the messages and the footer that auto-scrolling aims at.\<close>

definition render :: "global_config \<Rightarrow> component \<Rightarrow> node list \<times> component" where
  "render g c =
     (let (items, c1) = mapState (renderMessage g) (chatThread c) c
      in ([Element ''ul'' [(''class'', Attr ''chat__list''), (''aria-live'', Attr ''assertive'')] []
             items,
           Element ''div'' [(''class'', Attr ''chat__footer''), (''id'', Attr ''chat-list-footer'')] []
             [Comment '' Do not delete this element. It is used for auto-scrolling '']],
          c1))"

text \<open>What a listener of the tree does when its event arrives.\<close>

fun runHandler :: "handler \<Rightarrow> event \<Rightarrow> component \<Rightarrow> event \<times> component" where
  "runHandler (OnActionButtonClicked actionButton entry) ev c = actionButtonClicked actionButton entry ev c"
| "runHandler OnCopyResponseToClipboard ev c = (ev, copyResponseToClipboard c)"
| "runHandler OnHandleCitationClick ev c = handleCitationClick ev c"
| "runHandler (OnHandleFollowupQuestionClick question) ev c = handleFollowupQuestionClick question ev c"

subsection \<open>Reading the rendered tree\<close>

text \<open>
  The nodes of a tree, the node itself first, in document order; the regions of a tree
  are its elements of a given class: \<^verbatim>\<open>chat__header\<close> is the row of action buttons,
  \<^verbatim>\<open>chat__citations\<close> the citations, \<^verbatim>\<open>items__listWrapper\<close> the follow-up questions.
  Markup passed through \<^verbatim>\<open>unsafeHTML\<close> is a leaf and is not searched.
\<close>

fun descendants :: "node \<Rightarrow> node list" where
  "descendants (Element tg bs ls ch) = Element tg bs ls ch # concat (map descendants ch)"
| "descendants (Text s) = [Text s]"
| "descendants (UnsafeHTML s) = [UnsafeHTML s]"
| "descendants (UnsafeSVG s) = [UnsafeSVG s]"
| "descendants (Comment s) = [Comment s]"

fun hasClass :: "string \<Rightarrow> node \<Rightarrow> bool" where
  "hasClass cls (Element tg bs ls ch) = (map_of bs ''class'' = Some (Attr cls))"
| "hasClass cls (Text s) = False"
| "hasClass cls (UnsafeHTML s) = False"
| "hasClass cls (UnsafeSVG s) = False"
| "hasClass cls (Comment s) = False"

definition regions :: "string \<Rightarrow> node \<Rightarrow> node list" where
  "regions cls n = filter (hasClass cls) (descendants n)"

definition actionButtonRows :: "node \<Rightarrow> node list" where
  "actionButtonRows n = regions ''chat__header'' n"

definition citationRegions :: "node \<Rightarrow> node list" where
  "citationRegions n = regions ''chat__citations'' n"

definition followupRegions :: "node \<Rightarrow> node list" where
  "followupRegions n = regions ''items__listWrapper'' n"

text \<open>The elements of a tree with a given tag; the follow-up questions are its anchors.\<close>

fun hasTag :: "string \<Rightarrow> node \<Rightarrow> bool" where
  "hasTag t (Element tg bs ls ch) = (tg = t)"
| "hasTag t (Text s) = False"
| "hasTag t (UnsafeHTML s) = False"
| "hasTag t (UnsafeSVG s) = False"
| "hasTag t (Comment s) = False"

definition elementsByTag :: "string \<Rightarrow> node \<Rightarrow> node list" where
  "elementsByTag t n = filter (hasTag t) (descendants n)"

text \<open>The click listeners of a tree, in document order.\<close>

fun clickListeners :: "node \<Rightarrow> handler list" where
  "clickListeners (Element tg bs ls ch) = map snd (filter (\<lambda>l. fst l = ''click'') ls)"
| "clickListeners (Text s) = []"
| "clickListeners (UnsafeHTML s) = []"
| "clickListeners (UnsafeSVG s) = []"
| "clickListeners (Comment s) = []"

definition clickHandlers :: "node \<Rightarrow> handler list" where
  "clickHandlers n = concat (map clickListeners (descendants n))"

text \<open>
  The list items that \<^verbatim>\<open>render\<close> puts into the message list, one for each entry of
  \<^verbatim>\<open>chatThread\<close>, in its order.
\<close>

definition renderedMessages :: "global_config \<Rightarrow> component \<Rightarrow> node list" where
  "renderedMessages g c =
     (case fst (render g c) of
        Element tg bs ls items # rest \<Rightarrow> items
      | _ \<Rightarrow> [])"

text \<open>Two states agree on the five inputs of the projection.\<close>

definition sameInputs :: "component \<Rightarrow> component \<Rightarrow> bool" where
  "sameInputs c c' =
     (chatThread c = chatThread c' \<and> actionButtons c = actionButtons c' \<and>
      isDisabled c = isDisabled c' \<and> isProcessingResponse c = isProcessingResponse c' \<and>
      isResponseCopied c = isResponseCopied c')"

subsection \<open>A transcript to evaluate on\<close>

text \<open>
  A thread of two entries, a user message that carries a citation and a follow-up
  question and an answer of two text blocks, with one action button and the footer in
  place, while the answer is being processed.
\<close>

definition exampleConfig :: global_config where
  "exampleConfig =
     \<lparr>COPY_RESPONSE_BUTTON_LABEL_TEXT = ''Copy response'',
      COPIED_SUCCESSFULLY_MESSAGE = ''Response copied'',
      CITATIONS_LABEL = ''Citations'', USER_IS_BOT = ''Support Bot'',
      iconSuccess = ''<svg id=ok/>'', iconCopyToClipboard = ''<svg id=copy/>'',
      iconQuestion = ''<svg id=question/>''\<rparr>"

definition userEntry :: chat_thread_entry where
  "userEntry =
     \<lparr>isUserMessage = True,
      text_entry = [\<lparr>value_text = ''Hi'', followingSteps = None\<rparr>],
      citations = Some [Citation ''c1''],
      followupQuestions = Some [''Why?''],
      error_entry = None, timestamp = ''t1''\<rparr>"

definition botEntry :: chat_thread_entry where
  "botEntry =
     \<lparr>isUserMessage = False,
      text_entry = [\<lparr>value_text = ''Hello!'', followingSteps = Some [''one'', ''two'']\<rparr>,
                    \<lparr>value_text = ''Bye'', followingSteps = None\<rparr>],
      citations = None,
      followupQuestions = Some [],
      error_entry = None, timestamp = ''t2''\<rparr>"

definition likeButton :: chat_action_button where
  "likeButton = \<lparr>label = ''Like'', svgIcon = ''<svg id=like/>'', isDisabled_button = False,
                  id_button = ''like''\<rparr>"

definition exampleComponent :: component where
  "exampleComponent =
     \<lparr>chatThread = [userEntry, botEntry], actionButtons = [likeButton],
      isDisabled = False, isProcessingResponse = True, isResponseCopied = False,
      chatFooter = Some (HTMLElement ''chat-list-footer''),
      clipboardWrites = [], dispatched = [], scrolled = [],
      timers = [], nextHandle = 1, now = 0\<rparr>"

definition clickEvent :: event where
  "clickEvent = \<lparr>type_event = ''click'', detail_event = NoDetail, bubbles = True,
                  composed = True, defaultPrevented = False\<rparr>"

section \<open>Properties\<close>

subsection \<open>Auxiliary facts\<close>

lemma regions_Element:
  "regions cls (Element tg bs ls ch) =
     (if map_of bs ''class'' = Some (Attr cls) then [Element tg bs ls ch] else [])
     @ concat (map (regions cls) ch)"
  by (simp add: regions_def [abs_def] filter_concat comp_def)

lemma regions_leaf [simp]:
  "regions cls (Text s) = []" "regions cls (UnsafeHTML s) = []"
  "regions cls (UnsafeSVG s) = []" "regions cls (Comment s) = []"
  by (simp_all add: regions_def)

lemma concat_map_Nil [simp]: "concat (map (\<lambda>x. []) xs) = []"
  by (induction xs) simp_all

lemma mapState_inv:
  "(\<And>x s. P s \<Longrightarrow> P (snd (f x s))) \<Longrightarrow> P s \<Longrightarrow> P (snd (mapState f xs s))"
  by (induction xs arbitrary: s) (simp_all add: Let_def split_beta)

lemma fst_mapState_inv:
  "(\<And>x s. P s \<Longrightarrow> P (snd (f x s))) \<Longrightarrow> (\<And>x s. P s \<Longrightarrow> fst (f x s) = h x) \<Longrightarrow> P s
   \<Longrightarrow> fst (mapState f xs s) = map h xs"
  by (induction xs arbitrary: s) (simp_all add: Let_def split_beta)

lemma sameInputs_debounce: "sameInputs c (debounceScrollIntoView c)"
  by (simp add: sameInputs_def debounceScrollIntoView_def clearTimeout_def setTimeout_def Let_def)

lemma sameInputs_trans: "sameInputs a b \<Longrightarrow> sameInputs b c \<Longrightarrow> sameInputs a c"
  by (simp add: sameInputs_def)

lemma sameInputs_refl: "sameInputs c c"
  by (simp add: sameInputs_def)

lemma sameInputs_renderTextEntry: "sameInputs c s \<Longrightarrow> sameInputs c (snd (renderTextEntry t s))"
  using sameInputs_debounce [of s]
  by (auto simp add: renderTextEntry_def Let_def intro: sameInputs_trans)

lemma fst_renderTextEntry: "fst (renderTextEntry t s) = fst (renderTextEntry t c)"
  by (simp add: renderTextEntry_def Let_def)

lemma texts_mapState:
  "fst (mapState renderTextEntry ts s) = map (\<lambda>t. fst (renderTextEntry t c)) ts"
  by (rule fst_mapState_inv [where P = "\<lambda>s. True"]) (simp_all, rule fst_renderTextEntry)

lemma sameInputs_texts: "sameInputs c s \<Longrightarrow> sameInputs c (snd (mapState renderTextEntry ts s))"
  by (rule mapState_inv [where P = "sameInputs c"]) (simp_all add: sameInputs_renderTextEntry)

lemma sameInputs_renderMessage: "sameInputs c s \<Longrightarrow> sameInputs c (snd (renderMessage g m s))"
  by (simp add: renderMessage_def Let_def split_beta sameInputs_texts)

lemma fst_renderMessage:
  "sameInputs c s \<Longrightarrow> fst (renderMessage g m s) = fst (renderMessage g m c)"
  by (simp add: renderMessage_def Let_def split_beta texts_mapState [of _ _ c]
        renderResponseActions_def sameInputs_def)

lemma messages_mapState:
  "sameInputs c s \<Longrightarrow>
   fst (mapState (renderMessage g) ms s) = map (\<lambda>m. fst (renderMessage g m c)) ms"
proof (rule fst_mapState_inv [where P = "sameInputs c"])
  show "\<And>x s. sameInputs c s \<Longrightarrow> sameInputs c (snd (renderMessage g x s))"
    by (rule sameInputs_renderMessage)
  show "\<And>x s. sameInputs c s \<Longrightarrow> fst (renderMessage g x s) = fst (renderMessage g x c)"
    by (rule fst_renderMessage)
qed

lemma sameInputs_render: "sameInputs c (snd (render g c))"
  by (simp add: render_def split_beta mapState_inv [where P = "sameInputs c"]
        sameInputs_renderMessage sameInputs_refl)

lemma renderedMessages_map:
  "renderedMessages g c = map (\<lambda>m. fst (renderMessage g m c)) (chatThread c)"
  by (simp add: renderedMessages_def render_def split_beta messages_mapState [of c] sameInputs_refl)

lemma elementsByTag_Element:
  "elementsByTag t (Element tg bs ls ch) =
     (if tg = t then [Element tg bs ls ch] else []) @ concat (map (elementsByTag t) ch)"
  by (simp add: elementsByTag_def [abs_def] filter_concat comp_def)

lemma elementsByTag_leaf [simp]:
  "elementsByTag t (Text s) = []" "elementsByTag t (UnsafeHTML s) = []"
  "elementsByTag t (UnsafeSVG s) = []" "elementsByTag t (Comment s) = []"
  by (simp_all add: elementsByTag_def)

lemma clickHandlers_Element:
  "clickHandlers (Element tg bs ls ch) =
     map snd (filter (\<lambda>l. fst l = ''click'') ls) @ concat (map clickHandlers ch)"
proof -
  have "concat (concat (map (\<lambda>x. map f (descendants x)) ch)) =
        concat (map (\<lambda>n. concat (map f (descendants n))) ch)" for f :: "node \<Rightarrow> handler list"
    by (induction ch) simp_all
  then show ?thesis
    by (simp add: clickHandlers_def [abs_def] map_concat comp_def)
qed

lemma clickHandlers_leaf [simp]:
  "clickHandlers (Text s) = []" "clickHandlers (UnsafeHTML s) = []"
  "clickHandlers (UnsafeSVG s) = []" "clickHandlers (Comment s) = []"
  by (simp_all add: clickHandlers_def)

lemma regions_renderTextEntry:
  "regions ''chat__header'' (fst (renderTextEntry t c)) = []"
  "regions ''chat__citations'' (fst (renderTextEntry t c)) = []"
  "regions ''items__listWrapper'' (fst (renderTextEntry t c)) = []"
  by (simp_all add: renderTextEntry_def Let_def regions_Element comp_def split: option.splits)

lemma elementsByTag_renderTextEntry:
  "elementsByTag ''a'' (fst (renderTextEntry t c)) = []"
  by (simp add: renderTextEntry_def Let_def elementsByTag_Element comp_def split: option.splits)

lemma regions_renderResponseActions:
  "regions ''chat__header'' (renderResponseActions g m c) = [renderResponseActions g m c]"
  "regions ''chat__citations'' (renderResponseActions g m c) = []"
  "regions ''items__listWrapper'' (renderResponseActions g m c) = []"
  by (simp_all add: renderResponseActions_def regions_Element comp_def)

lemma elementsByTag_renderResponseActions:
  "elementsByTag ''a'' (renderResponseActions g m c) = []"
  by (simp add: renderResponseActions_def elementsByTag_Element comp_def)

lemma regions_renderCitation:
  "regions ''chat__header'' (renderCitation g cs) = []"
  "regions ''chat__citations'' (renderCitation g cs) =
     (case cs of None \<Rightarrow> [] | Some xs \<Rightarrow> if xs = [] then [] else [renderCitation g cs])"
  "regions ''items__listWrapper'' (renderCitation g cs) = []"
  by (simp_all add: renderCitation_def regions_Element split: option.splits)

lemma elementsByTag_renderCitation:
  "elementsByTag ''a'' (renderCitation g cs) = []"
  by (simp add: renderCitation_def elementsByTag_Element split: option.splits)

lemma regions_renderFollowupQuestions:
  "regions ''chat__header'' (renderFollowupQuestions g qs) = []"
  "regions ''chat__citations'' (renderFollowupQuestions g qs) = []"
  "regions ''items__listWrapper'' (renderFollowupQuestions g qs) =
     (case qs of None \<Rightarrow> [] | Some xs \<Rightarrow> if xs = [] then [] else [renderFollowupQuestions g qs])"
  by (simp_all add: renderFollowupQuestions_def regions_Element comp_def split: option.splits)

lemma regions_renderError:
  "regions ''chat__header'' (renderError e) = []"
  "regions ''chat__citations'' (renderError e) = []"
  "regions ''items__listWrapper'' (renderError e) = []"
  by (simp_all add: renderError_def regions_Element)

lemma elementsByTag_renderError:
  "elementsByTag ''a'' (renderError e) = []"
  by (simp add: renderError_def elementsByTag_Element)

lemma concat_map_regions_texts:
  "concat (map (regions ''chat__header'') (fst (mapState renderTextEntry ts c))) = []"
  "concat (map (regions ''chat__citations'') (fst (mapState renderTextEntry ts c))) = []"
  "concat (map (regions ''items__listWrapper'') (fst (mapState renderTextEntry ts c))) = []"
  "concat (map (elementsByTag ''a'') (fst (mapState renderTextEntry ts c))) = []"
  by (simp_all add: texts_mapState [of _ _ c] comp_def regions_renderTextEntry
        elementsByTag_renderTextEntry)

lemma actionButtonRows_renderMessage:
  "actionButtonRows (fst (renderMessage g m c)) =
     (if isUserMessage m then [] else [renderResponseActions g m c])"
  by (simp add: actionButtonRows_def renderMessage_def Let_def split_beta regions_Element
        concat_map_regions_texts regions_renderResponseActions regions_renderCitation
        regions_renderFollowupQuestions regions_renderError split: option.splits)

lemma citationRegions_renderMessage:
  "citationRegions (fst (renderMessage g m c)) =
     (case citations m of None \<Rightarrow> []
      | Some xs \<Rightarrow> if xs = [] then [] else [renderCitation g (citations m)])"
  by (simp add: citationRegions_def renderMessage_def Let_def split_beta regions_Element
        concat_map_regions_texts regions_renderResponseActions regions_renderCitation
        regions_renderFollowupQuestions regions_renderError split: option.splits)

lemma followupRegions_renderMessage:
  "followupRegions (fst (renderMessage g m c)) =
     (case followupQuestions m of None \<Rightarrow> []
      | Some xs \<Rightarrow> if xs = [] then [] else [renderFollowupQuestions g (followupQuestions m)])"
  by (simp add: followupRegions_def renderMessage_def Let_def split_beta regions_Element
        concat_map_regions_texts regions_renderResponseActions regions_renderCitation
        regions_renderFollowupQuestions regions_renderError split: option.splits)

lemma elementsByTag_renderFollowupQuestions:
  "elementsByTag ''a'' (renderFollowupQuestions g qs) =
     (case qs of None \<Rightarrow> []
      | Some xs \<Rightarrow>
          map (\<lambda>q. Element ''a''
                 [(''class'', Attr ''items__link''), (''href'', Attr ''#''),
                  (''data-testid'', Attr ''followUpQuestion'')]
                 [(''click'', OnHandleFollowupQuestionClick q)] [Text q]) xs)"
proof (cases qs)
  case None
  then show ?thesis by (simp add: renderFollowupQuestions_def)
next
  case (Some xs)
  have "concat (map (\<lambda>q. [f q]) xs) = map f xs" for f :: "string \<Rightarrow> node"
    by (induction xs) simp_all
  with Some show ?thesis
    by (simp add: renderFollowupQuestions_def elementsByTag_Element comp_def)
qed

lemma links_renderMessage:
  "elementsByTag ''a'' (fst (renderMessage g m c)) =
     elementsByTag ''a'' (renderFollowupQuestions g (followupQuestions m))"
  by (simp add: renderMessage_def Let_def split_beta elementsByTag_Element
        concat_map_regions_texts elementsByTag_renderResponseActions elementsByTag_renderCitation
        elementsByTag_renderError split: option.splits)

lemma clickHandlers_renderResponseActions:
  "clickHandlers (renderResponseActions g m c) =
     map (\<lambda>b. OnActionButtonClicked b m) (actionButtons c) @ [OnCopyResponseToClipboard]"
proof -
  have "concat (map (\<lambda>q. [f q]) xs) = map f xs" for f :: "chat_action_button \<Rightarrow> handler" and xs
    by (induction xs) simp_all
  then show ?thesis
    by (simp add: renderResponseActions_def clickHandlers_Element comp_def)
qed


lemma copyResponseToClipboard_eq:
  "copyResponseToClipboard c =
     c\<lparr>clipboardWrites := clipboardWrites c @ [lastResponse c], isResponseCopied := True\<rparr>"
  by (simp add: copyResponseToClipboard_def writeText_def Let_def)

lemma readResponse_eq: "readResponse c = Inr (lastResponse c)"
  by (simp add: readResponse_def lastResponse_def optionalChain_def split: option.splits)

lemma copyResponseToClipboard_on_defined:
  "clipboard_navigator nav = Some cb \<Longrightarrow>
   copyResponseToClipboard_on nav c = Inr (copyResponseToClipboard c)"
  by (simp add: copyResponseToClipboard_on_def readResponse_eq member_def
        copyResponseToClipboard_def Let_def)


lemma fst_render:
  "fst (render g c) =
     [Element ''ul'' [(''class'', Attr ''chat__list''), (''aria-live'', Attr ''assertive'')] []
        (map (\<lambda>m. fst (renderMessage g m c)) (chatThread c)),
      Element ''div'' [(''class'', Attr ''chat__footer''), (''id'', Attr ''chat-list-footer'')] []
        [Comment '' Do not delete this element. It is used for auto-scrolling '']]"
  by (simp add: render_def split_beta messages_mapState [of c] sameInputs_refl)

lemma fst_render_sameInputs:
  assumes "sameInputs c c'"
  shows "fst (render g c') = fst (render g c)"
proof -
  have "fst (renderMessage g m c') = fst (renderMessage g m c)" for m
    using assms by (rule fst_renderMessage)
  moreover have "chatThread c' = chatThread c"
    using assms by (simp add: sameInputs_def)
  ultimately show ?thesis
    by (simp add: fst_render)
qed

subsection \<open>The claims\<close>

text \<open>
  Claim C1, as the code has it. The list item of a user-authored entry holds no row of
  action buttons. Its citations and its follow-up questions are rendered by the same
  rule as for any other entry: the citation region is absent exactly when
  \<^verbatim>\<open>citations\<close> is undefined or empty, and the follow-up region is absent exactly when
  \<^verbatim>\<open>followupQuestions\<close> is undefined or empty. The claim as written (no citation and no
  follow-up region whatever the fields hold) fails: \<^verbatim>\<open>render\<close> passes the two fields
  to \<^verbatim>\<open>renderCitation\<close> and \<^verbatim>\<open>renderFollowupQuestions\<close> without looking at
  \<^verbatim>\<open>isUserMessage\<close>, and the last theorem below evaluates a user entry with one
  citation and one follow-up question, whose list item holds both regions.
\<close>

theorem user_entry_regions:
  assumes "i < length (chatThread c)" and "isUserMessage (chatThread c ! i)"
  shows "actionButtonRows (renderedMessages g c ! i) = []
       \<and> (citationRegions (renderedMessages g c ! i) = [] \<longleftrightarrow>
            (citations (chatThread c ! i) = None \<or> citations (chatThread c ! i) = Some []))
       \<and> (followupRegions (renderedMessages g c ! i) = [] \<longleftrightarrow>
            (followupQuestions (chatThread c ! i) = None
             \<or> followupQuestions (chatThread c ! i) = Some []))"
  using assms
  by (simp add: renderedMessages_map actionButtonRows_renderMessage citationRegions_renderMessage
        followupRegions_renderMessage split: option.splits)

theorem user_entry_regions_witness:
  "0 < length (chatThread exampleComponent) \<and> isUserMessage (chatThread exampleComponent ! 0)
   \<and> actionButtonRows (renderedMessages exampleConfig exampleComponent ! 0) = []
   \<and> citationRegions (renderedMessages exampleConfig exampleComponent ! 0) \<noteq> []
   \<and> followupRegions (renderedMessages exampleConfig exampleComponent ! 0) \<noteq> []"
  using user_entry_regions [of 0 exampleComponent exampleConfig]
  by (simp add: exampleComponent_def userEntry_def)

theorem user_entry_citations_counterexample:
  "isUserMessage (chatThread exampleComponent ! 0)
   \<and> citationRegions (renderedMessages exampleConfig exampleComponent ! 0) =
       [Element ''div'' [(''class'', Attr ''chat__citations'')] []
          [Element ''citation-list''
             [(''citations'', PropCitations [Citation ''c1'']), (''label'', PropString ''Citations'')]
             [(''on-citation-click'', OnHandleCitationClick)] []]]
   \<and> followupRegions (renderedMessages exampleConfig exampleComponent ! 0) \<noteq> []"
  by (simp add: renderedMessages_map citationRegions_renderMessage followupRegions_renderMessage
        exampleComponent_def userEntry_def exampleConfig_def renderCitation_def)

text \<open>
  Claim C2 does not hold of the code. \<^verbatim>\<open>debounceScrollIntoView\<close> keeps its timer
  handle in a local that is 0 whenever \<^verbatim>\<open>clearTimeout\<close> reads it, so no pending timer
  is ever cancelled. Two requests 100 time units apart leave two timers pending at once
  and, with the footer in place, end in two calls of \<^verbatim>\<open>scrollIntoView\<close>; one render
  pass over three text blocks while a response is being processed arms three timers.
\<close>

theorem debounce_does_not_coalesce:
  "length (timers (debounceScrollIntoView (elapse 100 (debounceScrollIntoView exampleComponent)))) = 2
   \<and> length (scrolled (elapse 1000 (debounceScrollIntoView
                (elapse 100 (debounceScrollIntoView exampleComponent))))) = 2
   \<and> length (timers (snd (render exampleConfig exampleComponent))) = 3"
  by (simp add: elapse_def debounceScrollIntoView_def clearTimeout_def setTimeout_def Let_def
        exampleComponent_def render_def renderMessage_def renderTextEntry_def
        userEntry_def botEntry_def split_beta)



text \<open>
  Claim C4. The tree that \<^verbatim>\<open>render\<close> returns is a function of \<^verbatim>\<open>chatThread\<close>,
  \<^verbatim>\<open>actionButtons\<close>, \<^verbatim>\<open>isDisabled\<close>, \<^verbatim>\<open>isProcessingResponse\<close> and
  \<^verbatim>\<open>isResponseCopied\<close> alone: two states that agree on these five yield the same tree,
  whatever timers, clock or logs they hold, and rendering again in the state that a
  first render leaves (with the scroll requests it has made) yields the same tree.
\<close>

theorem render_deterministic:
  assumes "chatThread c = chatThread c'" and "actionButtons c = actionButtons c'"
    and "isDisabled c = isDisabled c'" and "isProcessingResponse c = isProcessingResponse c'"
    and "isResponseCopied c = isResponseCopied c'"
  shows "fst (render g c) = fst (render g c')
       \<and> fst (render g (snd (render g c))) = fst (render g c)"
proof
  from assms have "sameInputs c' c"
    by (simp add: sameInputs_def)
  then show "fst (render g c) = fst (render g c')"
    by (rule fst_render_sameInputs)
  show "fst (render g (snd (render g c))) = fst (render g c)"
    using sameInputs_render by (rule fst_render_sameInputs)
qed

theorem render_deterministic_witness:
  "chatThread exampleComponent = chatThread (snd (render exampleConfig exampleComponent))
   \<and> timers exampleComponent \<noteq> timers (snd (render exampleConfig exampleComponent))
   \<and> fst (render exampleConfig exampleComponent) =
       fst (render exampleConfig (snd (render exampleConfig exampleComponent)))"
proof -
  let ?c' = "snd (render exampleConfig exampleComponent)"
  have s: "sameInputs exampleComponent ?c'"
    by (rule sameInputs_render)
  have 1: "chatThread exampleComponent = chatThread ?c'"
    and 2: "actionButtons exampleComponent = actionButtons ?c'"
    and 3: "isDisabled exampleComponent = isDisabled ?c'"
    and 4: "isProcessingResponse exampleComponent = isProcessingResponse ?c'"
    and 5: "isResponseCopied exampleComponent = isResponseCopied ?c'"
    using s unfolding sameInputs_def by blast+
  have t: "timers ?c' \<noteq> []"
    by (simp add: debounceScrollIntoView_def clearTimeout_def setTimeout_def Let_def
        exampleComponent_def render_def renderMessage_def renderTextEntry_def
        userEntry_def botEntry_def split_beta)
  have e: "timers exampleComponent = []"
    by (simp add: exampleComponent_def)
  have B: "timers exampleComponent \<noteq> timers ?c'"
    using t unfolding e by (rule not_sym)
  have C: "fst (render exampleConfig exampleComponent) = fst (render exampleConfig ?c')"
    using render_deterministic [OF 1 2 3 4 5, of exampleConfig] by (rule conjunct1)
  from 1 B C show ?thesis by (intro conjI)
qed

text \<open>
  Claim C5. For every entry of the thread: when \<^verbatim>\<open>citations\<close> is undefined or empty,
  its list item holds no citation region and the citation slot is the empty text, not a
  wrapper element; when \<^verbatim>\<open>citations\<close> is a non-empty list, the list item holds
  exactly one citation region, the wrapper around the \<^verbatim>\<open>citation-list\<close> element that
  is given these citations.
\<close>

theorem citation_region_present_iff_nonempty:
  assumes "i < length (chatThread c)"
  shows "(citations (chatThread c ! i) = None \<or> citations (chatThread c ! i) = Some [] \<longrightarrow>
            citationRegions (renderedMessages g c ! i) = []
            \<and> renderCitation g (citations (chatThread c ! i)) = Text [])
       \<and> (\<forall>cs. citations (chatThread c ! i) = Some cs \<and> cs \<noteq> [] \<longrightarrow>
            citationRegions (renderedMessages g c ! i) =
              [Element ''div'' [(''class'', Attr ''chat__citations'')] []
                 [Element ''citation-list''
                    [(''citations'', PropCitations cs), (''label'', PropString (CITATIONS_LABEL g))]
                    [(''on-citation-click'', OnHandleCitationClick)] []]])"
  using assms
  by (auto simp add: renderedMessages_map citationRegions_renderMessage renderCitation_def)

theorem citation_region_present_iff_nonempty_witness:
  "1 < length (chatThread exampleComponent)
   \<and> citations (chatThread exampleComponent ! 1) = None
   \<and> citationRegions (renderedMessages exampleConfig exampleComponent ! 1) = []
   \<and> 0 < length (chatThread exampleComponent)
   \<and> citations (chatThread exampleComponent ! 0) = Some [Citation ''c1'']
   \<and> citationRegions (renderedMessages exampleConfig exampleComponent ! 0) =
       [Element ''div'' [(''class'', Attr ''chat__citations'')] []
          [Element ''citation-list''
             [(''citations'', PropCitations [Citation ''c1'']),
              (''label'', PropString (CITATIONS_LABEL exampleConfig))]
             [(''on-citation-click'', OnHandleCitationClick)] []]]"
  using citation_region_present_iff_nonempty [of 1 exampleComponent exampleConfig]
        citation_region_present_iff_nonempty [of 0 exampleComponent exampleConfig]
  by (simp add: exampleComponent_def userEntry_def botEntry_def)

text \<open>
  Claim C6. For every entry of the thread: when \<^verbatim>\<open>followupQuestions\<close> is undefined
  or empty, its list item holds no follow-up region and no anchor; when it is a list of
  one question, the list item holds one follow-up region and exactly one anchor, whose
  text is that question, and a click on it cancels the default action of the click and
  dispatches one \<^verbatim>\<open>on-followup-click\<close> event whose detail is the question and that
  bubbles and is composed. This holds for every question string, the empty one too.
\<close>

theorem followup_region_and_click:
  assumes "i < length (chatThread c)"
  shows "(followupQuestions (chatThread c ! i) = None
          \<or> followupQuestions (chatThread c ! i) = Some [] \<longrightarrow>
            followupRegions (renderedMessages g c ! i) = []
            \<and> elementsByTag ''a'' (renderedMessages g c ! i) = [])
       \<and> (\<forall>q. followupQuestions (chatThread c ! i) = Some [q] \<longrightarrow>
            length (followupRegions (renderedMessages g c ! i)) = 1
            \<and> elementsByTag ''a'' (renderedMessages g c ! i) =
                [Element ''a''
                   [(''class'', Attr ''items__link''), (''href'', Attr ''#''),
                    (''data-testid'', Attr ''followUpQuestion'')]
                   [(''click'', OnHandleFollowupQuestionClick q)] [Text q]]
            \<and> runHandler (OnHandleFollowupQuestionClick q) ev s =
                (ev\<lparr>defaultPrevented := True\<rparr>,
                 s\<lparr>dispatched := dispatched s @
                      [\<lparr>type_event = ''on-followup-click'', detail_event = FollowupDetail q,
                        bubbles = True, composed = True, defaultPrevented = False\<rparr>]\<rparr>))"
  using assms
  by (auto simp add: renderedMessages_map followupRegions_renderMessage links_renderMessage
        elementsByTag_renderFollowupQuestions handleFollowupQuestionClick_def preventDefault_def
        dispatchEvent_def CustomEvent_def Let_def)

theorem followup_region_and_click_witness:
  "1 < length (chatThread exampleComponent)
   \<and> followupQuestions (chatThread exampleComponent ! 1) = Some []
   \<and> followupRegions (renderedMessages exampleConfig exampleComponent ! 1) = []
   \<and> 0 < length (chatThread exampleComponent)
   \<and> followupQuestions (chatThread exampleComponent ! 0) = Some [''Why?'']
   \<and> elementsByTag ''a'' (renderedMessages exampleConfig exampleComponent ! 0) =
       [Element ''a''
          [(''class'', Attr ''items__link''), (''href'', Attr ''#''),
           (''data-testid'', Attr ''followUpQuestion'')]
          [(''click'', OnHandleFollowupQuestionClick ''Why?'')] [Text ''Why?'']]
   \<and> defaultPrevented (fst (runHandler (OnHandleFollowupQuestionClick ''Why?'') clickEvent
        exampleComponent))
   \<and> map detail_event (dispatched (snd (runHandler (OnHandleFollowupQuestionClick ''Why?'')
        clickEvent exampleComponent))) = [FollowupDetail ''Why?'']"
  using followup_region_and_click [of 1 exampleComponent exampleConfig clickEvent exampleComponent]
        followup_region_and_click [of 0 exampleComponent exampleConfig clickEvent exampleComponent]
  by (simp add: exampleComponent_def userEntry_def botEntry_def)

text \<open>
  Claim C7. In the row of action buttons rendered for an entry, the click listener of
  each caller-supplied button is bound to that button and to that entry. Running it
  cancels the default action of the click and dispatches one
  \<^verbatim>\<open>on-action-button-click\<close> event whose detail is the id of the button and the
  entry, with \<^verbatim>\<open>bubbles\<close> and \<^verbatim>\<open>composed\<close> set, the two flags by which an event
  reaches listeners on ancestors beyond the shadow root.
\<close>

theorem action_button_click_notifies:
  "clickHandlers (renderResponseActions g entry c) =
     map (\<lambda>actionButton. OnActionButtonClicked actionButton entry) (actionButtons c)
     @ [OnCopyResponseToClipboard]
   \<and> runHandler (OnActionButtonClicked actionButton entry) ev s =
       (ev\<lparr>defaultPrevented := True\<rparr>,
        s\<lparr>dispatched := dispatched s @
             [\<lparr>type_event = ''on-action-button-click'',
               detail_event = ActionButtonDetail (id_button actionButton) entry,
               bubbles = True, composed = True, defaultPrevented = False\<rparr>]\<rparr>)"
  by (simp add: clickHandlers_renderResponseActions actionButtonClicked_def preventDefault_def
        dispatchEvent_def CustomEvent_def Let_def)

theorem action_button_click_notifies_witness:
  "clickHandlers (renderResponseActions exampleConfig botEntry exampleComponent) =
     [OnActionButtonClicked likeButton botEntry, OnCopyResponseToClipboard]
   \<and> defaultPrevented (fst (runHandler (OnActionButtonClicked likeButton botEntry) clickEvent
        exampleComponent))
   \<and> map detail_event (dispatched (snd (runHandler (OnActionButtonClicked likeButton botEntry)
        clickEvent exampleComponent))) = [ActionButtonDetail ''like'' botEntry]"
  using action_button_click_notifies [of exampleConfig botEntry exampleComponent likeButton
          clickEvent exampleComponent]
  by (simp add: exampleComponent_def likeButton_def)

text \<open>
  Claim C8, as the code has it. On an empty transcript \<^verbatim>\<open>at(-1)\<close> yields
  \<^verbatim>\<open>undefined\<close> and the optional chain ends there: the read of the last text block
  yields \<^verbatim>\<open>undefined\<close> and does not throw. Where the platform exposes
  \<^verbatim>\<open>navigator.clipboard\<close>, the copy operation then ends without an exception, in the
  state that has one more clipboard write and the flag set. The claim as written (no
  error whatever the platform) fails: the method reads \<^verbatim>\<open>writeText\<close> from
  \<^verbatim>\<open>navigator.clipboard\<close> without a guard, and where that is \<^verbatim>\<open>undefined\<close> the call
  on an empty transcript throws a \<^verbatim>\<open>TypeError\<close>, as the last theorem below evaluates.
\<close>

theorem copy_empty_transcript_no_error:
  assumes "chatThread c = []" and "clipboard_navigator nav = Some cb"
  shows "readResponse c = Inr None
       \<and> copyResponseToClipboard_on nav c =
           Inr (c\<lparr>clipboardWrites := clipboardWrites c @ [None], isResponseCopied := True\<rparr>)"
proof -
  from assms(1) have r: "lastResponse c = None"
    by (simp add: lastResponse_def at_js_def)
  have "readResponse c = Inr None"
    unfolding readResponse_eq r ..
  moreover have "copyResponseToClipboard_on nav c =
      Inr (c\<lparr>clipboardWrites := clipboardWrites c @ [None], isResponseCopied := True\<rparr>)"
    using copyResponseToClipboard_on_defined [OF assms(2), of c]
    by (simp add: copyResponseToClipboard_eq r)
  ultimately show ?thesis ..
qed

theorem copy_empty_transcript_no_error_witness:
  "chatThread (exampleComponent\<lparr>chatThread := []\<rparr>) = []
   \<and> clipboard_navigator \<lparr>clipboard_navigator = Some Clipboard\<rparr> = Some Clipboard
   \<and> readResponse (exampleComponent\<lparr>chatThread := []\<rparr>) = Inr None
   \<and> (case copyResponseToClipboard_on \<lparr>clipboard_navigator = Some Clipboard\<rparr>
               (exampleComponent\<lparr>chatThread := []\<rparr>) of
         Inl e \<Rightarrow> False
       | Inr c1 \<Rightarrow> clipboardWrites c1 = [None] \<and> isResponseCopied c1 \<and> chatThread c1 = [])"
  using copy_empty_transcript_no_error
          [of "exampleComponent\<lparr>chatThread := []\<rparr>" "\<lparr>clipboard_navigator = Some Clipboard\<rparr>"
              Clipboard]
  by (simp add: exampleComponent_def)

theorem copy_empty_transcript_counterexample:
  "chatThread (exampleComponent\<lparr>chatThread := []\<rparr>) = []
   \<and> copyResponseToClipboard_on \<lparr>clipboard_navigator = None\<rparr>
        (exampleComponent\<lparr>chatThread := []\<rparr>) = Inl TypeError"
  by (simp add: copyResponseToClipboard_on_def readResponse_def optionalChain_def member_def
        at_js_def exampleComponent_def)

text \<open>
  Claim C9. A scroll requested when no other timer is pending fires 500 time units
  later. If the footer exists at that moment, it is scrolled into view once, with
  behavior \<^verbatim>\<open>smooth\<close> and block \<^verbatim>\<open>center\<close>; if it does not, nothing is scrolled.
  Either way nothing is dispatched to the host and no timer is left pending.
\<close>

theorem scheduled_scroll_fires:
  assumes "timers c = []"
  shows "scrolled (elapse (now c + 500) ((debounceScrollIntoView c)\<lparr>chatFooter := sentinel\<rparr>)) =
           (case sentinel of
              Some footer \<Rightarrow> scrolled c @ [(footer, \<lparr>behavior = ''smooth'', block = ''center''\<rparr>)]
            | None \<Rightarrow> scrolled c)
       \<and> dispatched (elapse (now c + 500) ((debounceScrollIntoView c)\<lparr>chatFooter := sentinel\<rparr>)) =
           dispatched c
       \<and> timers (elapse (now c + 500) ((debounceScrollIntoView c)\<lparr>chatFooter := sentinel\<rparr>)) = []"
  using assms
  by (simp add: elapse_def debounceScrollIntoView_def clearTimeout_def setTimeout_def Let_def
        split: option.splits)

theorem scheduled_scroll_fires_witness:
  "timers exampleComponent = []
   \<and> scrolled (elapse (now exampleComponent + 500)
                ((debounceScrollIntoView exampleComponent)
                   \<lparr>chatFooter := Some (HTMLElement ''chat-list-footer'')\<rparr>)) =
       [(HTMLElement ''chat-list-footer'', \<lparr>behavior = ''smooth'', block = ''center''\<rparr>)]
   \<and> scrolled (elapse (now exampleComponent + 500)
                ((debounceScrollIntoView exampleComponent)\<lparr>chatFooter := None\<rparr>)) = []"
  using scheduled_scroll_fires [of exampleComponent "Some (HTMLElement ''chat-list-footer'')"]
        scheduled_scroll_fires [of exampleComponent None]
  by (simp add: exampleComponent_def)



end
